theory Spec2Isabelle
  imports Complex_Main "HOL-Library.AList" "HOL-Library.Sublist"
begin

section \<open>Conventions of the embedding\<close>

text \<open>
  The exporter is Go code. Its two core packages are embedded here:
  \<^item> \<^verbatim>\<open>internal/cls\<close> (the client whose \<^verbatim>\<open>FetchSnapshot\<close> walks the licensing API and
    aggregates one snapshot), and
  \<^item> \<^verbatim>\<open>internal/snapshot\<close> (the service that caches the snapshot: \<^verbatim>\<open>Get\<close>,
    \<^verbatim>\<open>Refresh\<close>, \<^verbatim>\<open>Latest\<close>, \<^verbatim>\<open>Meta\<close>).

  Conventions:
  \<^item> A Go \<^verbatim>\<open>float64\<close> quantity is a \<^typ>\<open>real\<close>. All quantities come from JSON numbers, so
    they are finite; rounding of sums is not modelled.
  \<^item> A \<^verbatim>\<open>time.Time\<close> is an \<^typ>\<open>int\<close>, the nanoseconds since the zero time; a
    \<^verbatim>\<open>time.Duration\<close> is an \<^typ>\<open>int\<close> of nanoseconds.
  \<^item> A Go \<^verbatim>\<open>string\<close> is a \<^typ>\<open>string\<close>, a list of bytes.
  \<^item> A nullable pointer is an \<^typ>\<open>'a option\<close>; a Go \<^verbatim>\<open>error\<close> result is a value of the
    datatype \<open>error\<close>.
  \<^item> Struct fields carry a short prefix of their struct, because several structs of the
    source share field names (\<^verbatim>\<open>ID\<close>, \<^verbatim>\<open>Name\<close>, \<^verbatim>\<open>InUse\<close>, ...).
\<close>

type_synonym time = int
type_synonym duration = int

text \<open>
  Errors. \<open>UpstreamError\<close> is whatever \<^verbatim>\<open>doJSON\<close> returns (network failure, non-2xx status,
  malformed payload); the other constructors are the three \<^verbatim>\<open>fmt.Errorf\<close> wrappers of
  \<^verbatim>\<open>FetchSnapshot\<close> and \<^verbatim>\<open>fetchActiveLeaseUsage\<close>, with the values they format.
\<close>

datatype error =
    UpstreamError string
  | ListLicenseServersError int error
  | ListActiveLeasesError int string error
  | ListLicensePoolsError string int error

section \<open>The snapshot (package cls)\<close>

record EntitlementFeatureSnapshot =
  ef_VirtualGroupID :: int
  ef_VirtualGroupName :: string
  ef_FeatureName :: string
  ef_FeatureVersion :: string
  ef_ProductName :: string
  ef_LicenseType :: string
  ef_TotalQuantity :: real
  ef_InUseQuantity :: real
  ef_Unassigned :: real

record ServerFeatureCapacitySnapshot =
  sfc_VirtualGroupID :: int
  sfc_VirtualGroupName :: string
  sfc_ServerID :: string
  sfc_ServerName :: string
  sfc_ServerStatus :: string
  sfc_DeployedOn :: string
  sfc_LeasingMode :: string
  sfc_FeatureName :: string
  sfc_ProductName :: string
  sfc_LicenseType :: string
  sfc_TotalQuantity :: real

record ServerUsageSnapshot =
  su_VirtualGroupID :: int
  su_VirtualGroupName :: string
  su_ServerID :: string
  su_ServerName :: string
  su_ServerStatus :: string
  su_DeployedOn :: string
  su_LeasingMode :: string
  su_Allocated :: real
  su_InUse :: real
  su_Available :: real

record ServerActiveLeaseSnapshot =
  sal_VirtualGroupID :: int
  sal_VirtualGroupName :: string
  sal_ServerID :: string
  sal_ServerName :: string
  sal_ActiveLeases :: real

record ServerFeatureActiveLeaseSnapshot =
  sfal_VirtualGroupID :: int
  sfal_VirtualGroupName :: string
  sfal_ServerID :: string
  sfal_ServerName :: string
  sfal_FeatureName :: string
  sfal_ProductName :: string
  sfal_LicenseType :: string
  sfal_ActiveLeases :: real

record PoolUsageSnapshot =
  pu_VirtualGroupID :: int
  pu_VirtualGroupName :: string
  pu_ServerID :: string
  pu_ServerName :: string
  pu_PoolID :: string
  pu_PoolName :: string
  pu_FeatureName :: string
  pu_ProductName :: string
  pu_LicenseType :: string
  pu_Allocated :: real
  pu_InUse :: real
  pu_Available :: real

record Snapshot =
  CollectedAt :: time
  EntitlementFeatures :: "EntitlementFeatureSnapshot list"
  ServerFeatureCapacity :: "ServerFeatureCapacitySnapshot list"
  ServerUsage :: "ServerUsageSnapshot list"
  ServerActiveLeases :: "ServerActiveLeaseSnapshot list"
  ServerFeatureActiveLeases :: "ServerFeatureActiveLeaseSnapshot list"
  ActiveLeaseTotal :: real
  PoolUsage :: "PoolUsageSnapshot list"

section \<open>The payloads of the licensing API (package cls)\<close>

record entitlementFeature =
  enf_FeatureName :: string
  enf_FeatureVersion :: string
  enf_ProductName :: string
  enf_LicenseType :: string
  enf_TotalQuantity :: real
  enf_InUseQuantity :: real
  enf_UnassignedQuantity :: real

record entitlementProductKey =
  epk_EntitlementFeatures :: "entitlementFeature list"

record entitlementSummary =
  es_EntitlementProductKeys :: "entitlementProductKey list"

record virtualGroup =
  vg_ID :: int
  vg_Name :: string
  vg_Entitlements :: "entitlementSummary list"

record licenseServerFeature =
  lsf_ID :: string
  lsf_FeatureName :: string
  lsf_ProductName :: string
  lsf_LicenseType :: string
  lsf_TotalQuantity :: real

record licenseServer =
  ls_ID :: string
  ls_Name :: string
  ls_Status :: string
  ls_VirtualGroupID :: int
  ls_VirtualGroupName :: string
  ls_DeployedOn :: string
  ls_LeasingMode :: string
  ls_ServiceInstanceID :: string
  ls_LicenseServerFeatures :: "licenseServerFeature list"

record licensePoolFeature =
  lpf_LicenseServerFeatureID :: string
  lpf_TotalAllotment :: real
  lpf_InUse :: real

record licensePool =
  lp_ID :: string
  lp_Name :: string
  lp_LicensePoolFeatures :: "licensePoolFeature list"

record activeLease =
  al_LeaseID :: string
  al_FeatureName :: string
  al_LeaseCount :: real
  al_LicenseAllotmentFeatureID :: string

record activeLeaseAdditionalProperties =
  ap_LicenseServerID :: string
  ap_LicenseServerName :: string

record activeLeaseClient =
  alc_Leases :: "activeLease list"
  alc_AdditionalProperties :: activeLeaseAdditionalProperties

text \<open>The zero values a Go map read yields for a missing key.\<close>

definition licenseServerFeature_zero :: licenseServerFeature where
  "licenseServerFeature_zero =
     \<lparr>lsf_ID = '''', lsf_FeatureName = '''', lsf_ProductName = '''', lsf_LicenseType = '''',
      lsf_TotalQuantity = 0\<rparr>"

definition licenseServer_zero :: licenseServer where
  "licenseServer_zero =
     \<lparr>ls_ID = '''', ls_Name = '''', ls_Status = '''', ls_VirtualGroupID = 0,
      ls_VirtualGroupName = '''', ls_DeployedOn = '''', ls_LeasingMode = '''',
      ls_ServiceInstanceID = '''', ls_LicenseServerFeatures = []\<rparr>"

text \<open>
  The upstream API, as the four \<^verbatim>\<open>list...\<close> methods of the client see it during one
  fetch: the answer to each request, an error or the decoded top-level array.
\<close>

record Upstream =
  listVirtualGroups :: "error + virtualGroup list"
  listLicenseServers :: "int \<Rightarrow> error + licenseServer list"
  listLicensePools :: "int \<Rightarrow> string \<Rightarrow> error + licensePool list"
  listActiveLeases :: "int \<Rightarrow> string \<Rightarrow> error + activeLeaseClient list"

section \<open>Go library functions used by the client\<close>

text \<open>
  \<^verbatim>\<open>strings.TrimSpace\<close> removes the leading and the trailing white space of a string, as
  Unicode defines it. On the UTF-8 bytes of a Go string the white-space runes are the
  byte sequences below: tab, line feed, vertical tab, form feed, carriage return, space,
  U+0085, U+00A0, U+1680, U+2000 to U+200A, U+2028, U+2029, U+202F, U+205F, U+3000.
\<close>

definition spaceRunes :: "string list" where
  "spaceRunes =
     [[CHR 0x09], [CHR 0x0A], [CHR 0x0B], [CHR 0x0C], [CHR 0x0D], [CHR 0x20],
      [CHR 0xC2, CHR 0x85], [CHR 0xC2, CHR 0xA0],
      [CHR 0xE1, CHR 0x9A, CHR 0x80],
      [CHR 0xE2, CHR 0x80, CHR 0x80], [CHR 0xE2, CHR 0x80, CHR 0x81],
      [CHR 0xE2, CHR 0x80, CHR 0x82], [CHR 0xE2, CHR 0x80, CHR 0x83],
      [CHR 0xE2, CHR 0x80, CHR 0x84], [CHR 0xE2, CHR 0x80, CHR 0x85],
      [CHR 0xE2, CHR 0x80, CHR 0x86], [CHR 0xE2, CHR 0x80, CHR 0x87],
      [CHR 0xE2, CHR 0x80, CHR 0x88], [CHR 0xE2, CHR 0x80, CHR 0x89],
      [CHR 0xE2, CHR 0x80, CHR 0x8A],
      [CHR 0xE2, CHR 0x80, CHR 0xA8], [CHR 0xE2, CHR 0x80, CHR 0xA9],
      [CHR 0xE2, CHR 0x80, CHR 0xAF],
      [CHR 0xE2, CHR 0x81, CHR 0x9F],
      [CHR 0xE3, CHR 0x80, CHR 0x80]]"

text \<open>One rune of \<open>rs\<close> taken off the front of \<open>s\<close>, if \<open>s\<close> starts with one.\<close>

fun stripRune :: "string list \<Rightarrow> string \<Rightarrow> string option" where
  "stripRune [] s = None"
| "stripRune (r # rs) s =
     (if r \<noteq> [] \<and> take (length r) s = r then Some (drop (length r) s) else stripRune rs s)"

function trimLeft :: "string list \<Rightarrow> string \<Rightarrow> string" where
  "trimLeft rs s = (case stripRune rs s of None \<Rightarrow> s | Some s' \<Rightarrow> trimLeft rs s')"
  by pat_completeness auto
termination
proof (relation "measure (\<lambda>(rs, s). length s)")
  show "wf (measure (\<lambda>(rs :: string list, s :: string). length s))"
    by simp
next
  fix rs :: "string list" and s s' :: string
  assume "stripRune rs s = Some s'"
  then have "length s' < length s"
  proof (induction rs)
    case Nil
    then show ?case by simp
  next
    case (Cons r rs)
    show ?case
    proof (cases "r \<noteq> [] \<and> take (length r) s = r")
      case True
      with Cons.prems have s': "s' = drop (length r) s" by simp
      from True have "length r \<le> length s"
        by (metis length_take min.cobounded1)
      with True s' show ?thesis by (cases r) auto
    next
      case False
      with Cons show ?thesis by auto
    qed
  qed
  then show "((rs, s'), (rs, s)) \<in> measure (\<lambda>(rs, s). length s)"
    by simp
qed

definition TrimSpace :: "string \<Rightarrow> string" where
  "TrimSpace s = rev (trimLeft (map rev spaceRunes) (rev (trimLeft spaceRunes s)))"

text \<open>
  \<^verbatim>\<open>errgroup.Group.Wait\<close> over the results of the tasks of one fan-out: the error of the
  first failed task (here the first in the order of the tasks), or the results of all.
\<close>

fun Wait :: "('e + 'a) list \<Rightarrow> 'e + 'a list" where
  "Wait [] = Inr []"
| "Wait (r # rs) =
     (case r of
        Inl err \<Rightarrow> Inl err
      | Inr x \<Rightarrow> (case Wait rs of Inl err \<Rightarrow> Inl err | Inr xs \<Rightarrow> Inr (x # xs)))"

text \<open>
  A Go map is an association list with distinct keys: \<^const>\<open>AList.update\<close> is the
  assignment \<^verbatim>\<open>m[k] = v\<close>, \<open>lookupOr\<close> the read \<^verbatim>\<open>m[k]\<close> with the zero value \<open>z\<close> for a
  missing key, \<^const>\<open>map_of\<close> the read \<^verbatim>\<open>v, ok := m[k]\<close>. Go iterates over a map in an
  unspecified order; the model iterates in the order of first insertion.
\<close>

definition lookupOr :: "'v \<Rightarrow> ('k \<times> 'v) list \<Rightarrow> 'k \<Rightarrow> 'v" where
  "lookupOr z m k = (case map_of m k of None \<Rightarrow> z | Some v \<Rightarrow> v)"

text \<open>\<^verbatim>\<open>m[k] += v\<close> on a map of \<^verbatim>\<open>float64\<close>.\<close>

definition addTo :: "'k \<Rightarrow> real \<Rightarrow> ('k \<times> real) list \<Rightarrow> ('k \<times> real) list" where
  "addTo k v m = AList.update k (lookupOr 0 m k + v) m"

section \<open>The client (package cls)\<close>

fun firstNonEmptyNonBlank :: "string list \<Rightarrow> string" where
  "firstNonEmptyNonBlank [] = ''''"
| "firstNonEmptyNonBlank (v # vs) =
     (let trimmed = TrimSpace v
      in if trimmed \<noteq> '''' then trimmed else firstNonEmptyNonBlank vs)"

definition maxFloat64 :: "real \<Rightarrow> real \<Rightarrow> real" where
  "maxFloat64 a b = (if a > b then a else b)"

definition extractEntitlementFeatureMetrics ::
  "virtualGroup list \<Rightarrow> EntitlementFeatureSnapshot list" where
  "extractEntitlementFeatureMetrics virtualGroups =
     concat (map (\<lambda>vg.
       concat (map (\<lambda>entitlement.
         concat (map (\<lambda>key.
           map (\<lambda>feature.
             \<lparr>ef_VirtualGroupID = vg_ID vg,
              ef_VirtualGroupName = vg_Name vg,
              ef_FeatureName = enf_FeatureName feature,
              ef_FeatureVersion = enf_FeatureVersion feature,
              ef_ProductName = enf_ProductName feature,
              ef_LicenseType = enf_LicenseType feature,
              ef_TotalQuantity = enf_TotalQuantity feature,
              ef_InUseQuantity = enf_InUseQuantity feature,
              ef_Unassigned = enf_UnassignedQuantity feature\<rparr>)
             (epk_EntitlementFeatures key))
           (es_EntitlementProductKeys entitlement)))
         (vg_Entitlements vg)))
       virtualGroups)"

subsection \<open>Phase 2: the license servers of every virtual group\<close>

text \<open>The loop that fills in the group id and name a server payload leaves out.\<close>

definition backfill :: "virtualGroup \<Rightarrow> licenseServer \<Rightarrow> licenseServer" where
  "backfill vg server =
     server\<lparr>ls_VirtualGroupID :=
              (if ls_VirtualGroupID server = 0 then vg_ID vg else ls_VirtualGroupID server),
            ls_VirtualGroupName :=
              (if ls_VirtualGroupName server = '''' then vg_Name vg
               else ls_VirtualGroupName server)\<rparr>"

text \<open>One task of \<^verbatim>\<open>serverGroup\<close>: its error, or the entry it writes to \<^verbatim>\<open>serversByVG\<close>.\<close>

definition serverTask :: "Upstream \<Rightarrow> virtualGroup \<Rightarrow> error + (int \<times> licenseServer list)" where
  "serverTask up vg =
     (case listLicenseServers up (vg_ID vg) of
        Inl listErr \<Rightarrow> Inl (ListLicenseServersError (vg_ID vg) listErr)
      | Inr servers \<Rightarrow> Inr (vg_ID vg, map (backfill vg) servers))"

definition fetchServers ::
  "Upstream \<Rightarrow> virtualGroup list \<Rightarrow> error + (int \<times> licenseServer list) list" where
  "fetchServers up virtualGroups =
     (case Wait (map (serverTask up) virtualGroups) of
        Inl err \<Rightarrow> Inl err
      | Inr writes \<Rightarrow> Inr (fold (\<lambda>(k, servers) m. AList.update k servers m) writes []))"

subsection \<open>Phase 3: the active leases\<close>

record activeFeatureKey =
  afk_virtualGroupID :: int
  afk_virtualGroupName :: string
  afk_serverID :: string
  afk_serverName :: string
  afk_featureName :: string
  afk_productName :: string
  afk_licenseType :: string

text \<open>The three maps built for one virtual group before its tasks start.\<close>

definition serverByID :: "licenseServer list \<Rightarrow> (string \<times> licenseServer) list" where
  "serverByID servers = fold (\<lambda>server m. AList.update (ls_ID server) server m) servers []"

definition featureByAllotmentID ::
  "licenseServer list \<Rightarrow> (string \<times> licenseServerFeature) list" where
  "featureByAllotmentID servers =
     fold (\<lambda>server m.
             fold (\<lambda>feature m'. AList.update (lsf_ID feature) feature m')
               (ls_LicenseServerFeatures server) m)
       servers []"

definition serviceInstanceIDs :: "licenseServer list \<Rightarrow> string list" where
  "serviceInstanceIDs servers =
     fold (\<lambda>server ids.
             if TrimSpace (ls_ServiceInstanceID server) \<noteq> ''''
             then List.insert (ls_ServiceInstanceID server) ids else ids)
       servers []"

text \<open>
  The body of the loop over the leases of a client has a part that reads no shared state
  (the server the lease belongs to, the normalised count, the key of the feature total,
  the trimmed lease id) and the critical section under \<^verbatim>\<open>mu\<close>. An \<open>attributedLease\<close> is
  what the first part hands to the second.
\<close>

record attributedLease =
  at_serverID :: string
  at_key :: activeFeatureKey
  at_leaseID :: string
  at_leaseCount :: real

text \<open>
  The server id of a client: the trimmed id of its additional properties, or the only key
  of \<^verbatim>\<open>serverByID\<close> when that id is empty and the map has one entry.
\<close>

definition resolveServerID :: "(string \<times> licenseServer) list \<Rightarrow> activeLeaseClient \<Rightarrow> string" where
  "resolveServerID byID client =
     (let serverID = TrimSpace (ap_LicenseServerID (alc_AdditionalProperties client))
      in if serverID = '''' \<and> length byID = 1
         then (case byID of (onlyID, _) # _ \<Rightarrow> onlyID | [] \<Rightarrow> serverID)
         else serverID)"

definition attributeLease ::
  "int \<Rightarrow> string \<Rightarrow> (string \<times> licenseServerFeature) list \<Rightarrow> string \<Rightarrow> licenseServer \<Rightarrow>
   string \<Rightarrow> activeLease \<Rightarrow> attributedLease" where
  "attributeLease virtualGroupID virtualGroupName byAllotmentID serverID server serverName lease =
     (let leaseCount = (if al_LeaseCount lease \<le> 0 then 1 else al_LeaseCount lease);
          feature = lookupOr licenseServerFeature_zero byAllotmentID
                      (al_LicenseAllotmentFeatureID lease);
          featureName = firstNonEmptyNonBlank [al_FeatureName lease, lsf_FeatureName feature];
          productName = firstNonEmptyNonBlank [lsf_ProductName feature, ''unknown''];
          licenseType = firstNonEmptyNonBlank [lsf_LicenseType feature, ''unknown''];
          key = \<lparr>afk_virtualGroupID = virtualGroupID,
                 afk_virtualGroupName =
                   firstNonEmptyNonBlank [ls_VirtualGroupName server, virtualGroupName],
                 afk_serverID = serverID,
                 afk_serverName = serverName,
                 afk_featureName = firstNonEmptyNonBlank [featureName, ''unknown''],
                 afk_productName = productName,
                 afk_licenseType = licenseType\<rparr>
      in \<lparr>at_serverID = serverID, at_key = key,
          at_leaseID = TrimSpace (al_LeaseID lease), at_leaseCount = leaseCount\<rparr>)"

text \<open>The leases of one client, in their order; none when the client has no server id.\<close>

definition clientLeases ::
  "int \<Rightarrow> string \<Rightarrow> (string \<times> licenseServer) list \<Rightarrow> (string \<times> licenseServerFeature) list \<Rightarrow>
   activeLeaseClient \<Rightarrow> attributedLease list" where
  "clientLeases virtualGroupID virtualGroupName byID byAllotmentID client =
     (let serverID = resolveServerID byID client
      in if serverID = '''' then []
         else
           (let server = lookupOr licenseServer_zero byID serverID;
                name = firstNonEmptyNonBlank
                         [ap_LicenseServerName (alc_AdditionalProperties client), ls_Name server];
                serverName = (if name = '''' then ''unknown'' else name)
            in map (attributeLease virtualGroupID virtualGroupName byAllotmentID
                      serverID server serverName)
                 (alc_Leases client)))"

text \<open>The shared state of the phase: the two maps of totals, the set of seen ids, the total.\<close>

record leaseTotals =
  serverTotals :: "(string \<times> real) list"
  featureTotals :: "(activeFeatureKey \<times> real) list"
  seenLeaseIDs :: "string set"
  total :: real

definition leaseTotals_empty :: leaseTotals where
  "leaseTotals_empty = \<lparr>serverTotals = [], featureTotals = [], seenLeaseIDs = {}, total = 0\<rparr>"

text \<open>The critical section, from \<^verbatim>\<open>mu.Lock()\<close> to \<^verbatim>\<open>mu.Unlock()\<close>.\<close>

definition countLease :: "attributedLease \<Rightarrow> leaseTotals \<Rightarrow> leaseTotals" where
  "countLease l t =
     (if at_leaseID l \<noteq> '''' \<and> at_leaseID l \<in> seenLeaseIDs t then t
      else t\<lparr>seenLeaseIDs :=
                (if at_leaseID l \<noteq> '''' then insert (at_leaseID l) (seenLeaseIDs t)
                 else seenLeaseIDs t),
              serverTotals := addTo (at_serverID l) (at_leaseCount l) (serverTotals t),
              featureTotals := addTo (at_key l) (at_leaseCount l) (featureTotals t),
              total := total t + at_leaseCount l\<rparr>)"

text \<open>
  One task of \<^verbatim>\<open>activeGroup\<close>, for a virtual group and one of its service instances: its
  error, or the leases it hands to the critical section, in order.
\<close>

definition leaseTask ::
  "Upstream \<Rightarrow> int \<Rightarrow> licenseServer list \<Rightarrow> string \<Rightarrow> error + attributedLease list" where
  "leaseTask up virtualGroupID servers serviceInstanceID =
     (case listActiveLeases up virtualGroupID serviceInstanceID of
        Inl err \<Rightarrow> Inl (ListActiveLeasesError virtualGroupID serviceInstanceID err)
      | Inr clients \<Rightarrow>
          Inr (concat (map (clientLeases virtualGroupID (ls_VirtualGroupName (hd servers))
                              (serverByID servers) (featureByAllotmentID servers))
                         clients)))"

text \<open>The requests of the phase: a virtual group with servers, one of its service instances.\<close>

definition leaseQueries :: "(int \<times> licenseServer list) list \<Rightarrow> (int \<times> licenseServer list \<times> string) list" where
  "leaseQueries serversByVG =
     concat (map (\<lambda>(virtualGroupID, servers).
                    if servers = [] then []
                    else map (\<lambda>serviceInstanceID. (virtualGroupID, servers, serviceInstanceID))
                           (serviceInstanceIDs servers))
               serversByVG)"

definition serverSnapshots ::
  "(int \<times> licenseServer list) list \<Rightarrow> (string \<times> real) list \<Rightarrow> ServerActiveLeaseSnapshot list" where
  "serverSnapshots serversByVG totals =
     concat (map (\<lambda>(virtualGroupID, servers).
       concat (map (\<lambda>server.
         (case map_of totals (ls_ID server) of
            None \<Rightarrow> []
          | Some count \<Rightarrow>
              [\<lparr>sal_VirtualGroupID = virtualGroupID,
                sal_VirtualGroupName = ls_VirtualGroupName server,
                sal_ServerID = ls_ID server,
                sal_ServerName = ls_Name server,
                sal_ActiveLeases = count\<rparr>]))
         servers))
       serversByVG)"

definition featureSnapshots ::
  "(activeFeatureKey \<times> real) list \<Rightarrow> ServerFeatureActiveLeaseSnapshot list" where
  "featureSnapshots totals =
     map (\<lambda>(key, count).
            \<lparr>sfal_VirtualGroupID = afk_virtualGroupID key,
             sfal_VirtualGroupName = afk_virtualGroupName key,
             sfal_ServerID = afk_serverID key,
             sfal_ServerName = afk_serverName key,
             sfal_FeatureName = afk_featureName key,
             sfal_ProductName = afk_productName key,
             sfal_LicenseType = afk_licenseType key,
             sfal_ActiveLeases = count\<rparr>)
       totals"

definition leaseTasks ::
  "Upstream \<Rightarrow> (int \<times> licenseServer list) list \<Rightarrow> (error + attributedLease list) list" where
  "leaseTasks up serversByVG =
     map (\<lambda>(virtualGroupID, servers, serviceInstanceID).
            leaseTask up virtualGroupID servers serviceInstanceID)
       (leaseQueries serversByVG)"

text \<open>
  \<^verbatim>\<open>fetchActiveLeaseUsage\<close>. The tasks run one after the other here, in the order of the
  requests; in the source they run concurrently and their critical sections interleave.
\<close>

definition fetchActiveLeaseUsage ::
  "Upstream \<Rightarrow> (int \<times> licenseServer list) list \<Rightarrow>
   error + ((string \<times> real) list \<times> ServerActiveLeaseSnapshot list \<times>
            ServerFeatureActiveLeaseSnapshot list \<times> real)" where
  "fetchActiveLeaseUsage up serversByVG =
     (case Wait (leaseTasks up serversByVG) of
        Inl err \<Rightarrow> Inl err
      | Inr leases \<Rightarrow>
          (let t = fold countLease (concat leases) leaseTotals_empty
           in Inr (serverTotals t, serverSnapshots serversByVG (serverTotals t),
                   featureSnapshots (featureTotals t), total t)))"

subsection \<open>The leases that count\<close>


subsection \<open>Phase 4: the license pools\<close>

definition featureByID :: "licenseServer \<Rightarrow> (string \<times> licenseServerFeature) list" where
  "featureByID server =
     fold (\<lambda>feature m. AList.update (lsf_ID feature) feature m)
       (ls_LicenseServerFeatures server) []"

definition serverFeatureCapacity :: "licenseServer \<Rightarrow> ServerFeatureCapacitySnapshot list" where
  "serverFeatureCapacity server =
     map (\<lambda>feature.
            \<lparr>sfc_VirtualGroupID = ls_VirtualGroupID server,
             sfc_VirtualGroupName = ls_VirtualGroupName server,
             sfc_ServerID = ls_ID server,
             sfc_ServerName = ls_Name server,
             sfc_ServerStatus = ls_Status server,
             sfc_DeployedOn = ls_DeployedOn server,
             sfc_LeasingMode = ls_LeasingMode server,
             sfc_FeatureName = lsf_FeatureName feature,
             sfc_ProductName = lsf_ProductName feature,
             sfc_LicenseType = lsf_LicenseType feature,
             sfc_TotalQuantity = lsf_TotalQuantity feature\<rparr>)
       (ls_LicenseServerFeatures server)"

text \<open>The row of one feature of a pool, with its clamped \<^verbatim>\<open>available\<close>.\<close>

definition poolUsageRow ::
  "licenseServer \<Rightarrow> licensePool \<Rightarrow> licensePoolFeature \<Rightarrow> PoolUsageSnapshot" where
  "poolUsageRow server pool feature =
     (let serverFeature = lookupOr licenseServerFeature_zero (featureByID server)
                            (lpf_LicenseServerFeatureID feature);
          allocated = lpf_TotalAllotment feature;
          inUse = lpf_InUse feature;
          available = (if allocated - inUse < 0 then 0 else allocated - inUse)
      in \<lparr>pu_VirtualGroupID = ls_VirtualGroupID server,
          pu_VirtualGroupName = ls_VirtualGroupName server,
          pu_ServerID = ls_ID server,
          pu_ServerName = ls_Name server,
          pu_PoolID = lp_ID pool,
          pu_PoolName = lp_Name pool,
          pu_FeatureName = lsf_FeatureName serverFeature,
          pu_ProductName = lsf_ProductName serverFeature,
          pu_LicenseType = lsf_LicenseType serverFeature,
          pu_Allocated = allocated,
          pu_InUse = inUse,
          pu_Available = available\<rparr>)"

text \<open>
  The body of the loop over the features of a pool: the state is the pair of running sums
  \<^verbatim>\<open>serverAllocated\<close>, \<^verbatim>\<open>serverInUse\<close> and the rows appended so far.
\<close>

definition poolFeatureStep ::
  "licenseServer \<Rightarrow> licensePool \<Rightarrow> licensePoolFeature \<Rightarrow>
   real \<times> real \<times> PoolUsageSnapshot list \<Rightarrow> real \<times> real \<times> PoolUsageSnapshot list" where
  "poolFeatureStep server pool feature acc =
     (case acc of (serverAllocated, serverInUse, poolUsage) \<Rightarrow>
        (serverAllocated + lpf_TotalAllotment feature, serverInUse + lpf_InUse feature,
         poolUsage @ [poolUsageRow server pool feature]))"

definition poolLoop ::
  "licenseServer \<Rightarrow> licensePool list \<Rightarrow> real \<times> real \<times> PoolUsageSnapshot list" where
  "poolLoop server pools =
     fold (\<lambda>pool acc. fold (poolFeatureStep server pool) (lp_LicensePoolFeatures pool) acc)
       pools (0, 0, [])"

definition serverUsageRow ::
  "(string \<times> real) list \<Rightarrow> licenseServer \<Rightarrow> real \<Rightarrow> real \<Rightarrow> ServerUsageSnapshot" where
  "serverUsageRow activeByServer server serverAllocated serverInUse =
     (let serverUsage =
            \<lparr>su_VirtualGroupID = ls_VirtualGroupID server,
             su_VirtualGroupName = ls_VirtualGroupName server,
             su_ServerID = ls_ID server,
             su_ServerName = ls_Name server,
             su_ServerStatus = ls_Status server,
             su_DeployedOn = ls_DeployedOn server,
             su_LeasingMode = ls_LeasingMode server,
             su_Allocated = serverAllocated,
             su_InUse = serverInUse,
             su_Available = maxFloat64 0 (serverAllocated - serverInUse)\<rparr>
      in case map_of activeByServer (ls_ID server) of
           Some activeLeaseCount \<Rightarrow>
             serverUsage\<lparr>su_InUse := activeLeaseCount,
                         su_Available := maxFloat64 0 (serverAllocated - activeLeaseCount)\<rparr>
         | None \<Rightarrow> serverUsage)"

text \<open>
  One task of \<^verbatim>\<open>poolGroup\<close>: its error, or what it appends to the pool usage, the server
  usage and the server feature capacity of the snapshot.
\<close>

definition poolTask ::
  "Upstream \<Rightarrow> (string \<times> real) list \<Rightarrow> virtualGroup \<Rightarrow> licenseServer \<Rightarrow>
   error + (PoolUsageSnapshot list \<times> ServerUsageSnapshot \<times> ServerFeatureCapacitySnapshot list)" where
  "poolTask up activeByServer vg server =
     (case listLicensePools up (vg_ID vg) (ls_ID server) of
        Inl listErr \<Rightarrow> Inl (ListLicensePoolsError (ls_ID server) (vg_ID vg) listErr)
      | Inr pools \<Rightarrow>
          (case poolLoop server pools of (serverAllocated, serverInUse, poolUsage) \<Rightarrow>
             Inr (poolUsage, serverUsageRow activeByServer server serverAllocated serverInUse,
                  serverFeatureCapacity server)))"

text \<open>The requests of the phase: every virtual group with every server stored for its id.\<close>

definition poolQueries ::
  "virtualGroup list \<Rightarrow> (int \<times> licenseServer list) list \<Rightarrow> (virtualGroup \<times> licenseServer) list" where
  "poolQueries virtualGroups serversByVG =
     concat (map (\<lambda>vg. map (\<lambda>server. (vg, server)) (lookupOr [] serversByVG (vg_ID vg)))
               virtualGroups)"

subsection \<open>FetchSnapshot\<close>

text \<open>
  \<open>t\<close> is the reading of \<^verbatim>\<open>time.Now().UTC()\<close> that becomes \<^verbatim>\<open>CollectedAt\<close>. The tasks of
  every phase run in the order of their requests and append their rows in that order.
\<close>

definition FetchSnapshot :: "Upstream \<Rightarrow> time \<Rightarrow> error + Snapshot" where
  "FetchSnapshot up t =
     (case listVirtualGroups up of
        Inl err \<Rightarrow> Inl err
      | Inr virtualGroups \<Rightarrow>
          (case fetchServers up virtualGroups of
             Inl err \<Rightarrow> Inl err
           | Inr serversByVG \<Rightarrow>
               (case fetchActiveLeaseUsage up serversByVG of
                  Inl err \<Rightarrow> Inl err
                | Inr (activeByServer, serverActiveLeases, serverFeatureActiveLeases,
                       activeLeaseTotal) \<Rightarrow>
                    (case Wait (map (\<lambda>(vg, server). poolTask up activeByServer vg server)
                                  (poolQueries virtualGroups serversByVG)) of
                       Inl err \<Rightarrow> Inl err
                     | Inr parts \<Rightarrow>
                         Inr \<lparr>CollectedAt = t,
                              EntitlementFeatures =
                                extractEntitlementFeatureMetrics virtualGroups,
                              ServerFeatureCapacity = concat (map (\<lambda>(p, u, c). c) parts),
                              ServerUsage = map (\<lambda>(p, u, c). u) parts,
                              ServerActiveLeases = serverActiveLeases,
                              ServerFeatureActiveLeases = serverFeatureActiveLeases,
                              ActiveLeaseTotal = activeLeaseTotal,
                              PoolUsage = concat (map (\<lambda>(p, u, c). p) parts)\<rparr>))))"

section \<open>The cache service (package snapshot)\<close>

record Meta =
  Up :: real
  DurationSeconds :: real
  Timestamp :: time
  CacheHit :: bool

text \<open>The zero value \<^verbatim>\<open>Meta{}\<close>.\<close>

definition Meta_zero :: Meta where
  "Meta_zero = \<lparr>Up = 0, DurationSeconds = 0, Timestamp = 0, CacheHit = False\<rparr>"

text \<open>
  The mutable fields of \<^verbatim>\<open>Service\<close>. The lock and the singleflight group are not state of
  the sequential model; the fetcher is the environment below.
\<close>

record Service =
  cacheTTL :: duration
  snapshot :: "Snapshot option"
  meta :: Meta
  cachedAt :: time

text \<open>
  The environment of one call of the \<^verbatim>\<open>Fetcher\<close> interface from \<^verbatim>\<open>Refresh\<close>: what
  \<^verbatim>\<open>FetchSnapshot\<close> returned, the seconds \<^verbatim>\<open>time.Since(start).Seconds()\<close> measured around
  it, and the reading of \<^verbatim>\<open>time.Now()\<close> after it.
\<close>

record fetchAttempt =
  fetched :: "error + Snapshot"
  duration :: real
  now :: time

text \<open>
  The fetcher, as the fake fetcher of the package's tests has it: a counter of the calls
  made so far and the outcome of each call by its index.
\<close>

record Fetcher =
  calls :: nat
  results :: "nat \<Rightarrow> fetchAttempt"

definition defaultCacheTTL :: duration where
  "defaultCacheTTL = 60 * 1000000000"

definition NewService :: "duration \<Rightarrow> Service" where
  "NewService ttl =
     \<lparr>cacheTTL = (if ttl \<le> 0 then defaultCacheTTL else ttl),
      snapshot = None, meta = Meta_zero, cachedAt = 0\<rparr>"

text \<open>
  \<^verbatim>\<open>Refresh\<close>, for a caller that runs the function given to \<^verbatim>\<open>sf.Do\<close> itself. The result
  is the Go triple (snapshot, meta, error) with the new state of the service and of the
  fetcher.
\<close>

definition Refresh ::
  "Service \<Rightarrow> Fetcher \<Rightarrow> (Snapshot option \<times> Meta \<times> error option) \<times> Service \<times> Fetcher" where
  "Refresh s f =
     (let a = results f (calls f);
          f' = f\<lparr>calls := Suc (calls f)\<rparr>
      in case fetched a of
           Inr fetchedSnap \<Rightarrow>
             (let m = \<lparr>Up = 1, DurationSeconds = duration a,
                       Timestamp = CollectedAt fetchedSnap, CacheHit = False\<rparr>
              in ((Some fetchedSnap, m, None),
                  s\<lparr>snapshot := Some fetchedSnap, meta := m, cachedAt := now a\<rparr>, f'))
         | Inl fetchErr \<Rightarrow>
             (case snapshot s of
                Some stale \<Rightarrow>
                  (let staleMeta = \<lparr>Up = 0, DurationSeconds = duration a,
                                     Timestamp = CollectedAt stale, CacheHit = False\<rparr>
                   in ((Some stale, staleMeta, None), s\<lparr>meta := staleMeta\<rparr>, f'))
              | None \<Rightarrow>
                  ((None, Meta_zero, Some fetchErr),
                   s\<lparr>meta := \<lparr>Up = 0, DurationSeconds = duration a,
                                Timestamp = now a, CacheHit = False\<rparr>\<rparr>, f')))"

text \<open>\<^verbatim>\<open>Get\<close>; \<open>t\<close> is the clock reading of its \<^verbatim>\<open>time.Since(cachedAt)\<close>.\<close>

definition Get ::
  "Service \<Rightarrow> time \<Rightarrow> Fetcher \<Rightarrow> (Snapshot option \<times> Meta \<times> error option) \<times> Service \<times> Fetcher" where
  "Get s t f =
     (if snapshot s \<noteq> None \<and> t - cachedAt s < cacheTTL s
      then ((snapshot s, (meta s)\<lparr>CacheHit := True, DurationSeconds := 0\<rparr>, None), s, f)
      else Refresh s f)"


definition Meta_of :: "Service \<Rightarrow> Meta" where
  "Meta_of s = meta s"

section \<open>Inputs of the examples\<close>

definition snapA :: Snapshot where
  "snapA = \<lparr>CollectedAt = 1000, EntitlementFeatures = [], ServerFeatureCapacity = [],
            ServerUsage = [], ServerActiveLeases = [], ServerFeatureActiveLeases = [],
            ActiveLeaseTotal = 0, PoolUsage = []\<rparr>"

text \<open>A fetcher whose every call fails after two seconds, at time 5000.\<close>

definition failingFetcher :: Fetcher where
  "failingFetcher =
     \<lparr>calls = 0,
      results = (\<lambda>_. \<lparr>fetched = Inl (UpstreamError ''boom''), duration = 2, now = 5000\<rparr>)\<rparr>"

text \<open>A service that committed \<open>snapA\<close> at time 1500, with a TTL of 60.\<close>

definition warmService :: Service where
  "warmService =
     \<lparr>cacheTTL = 60, snapshot = Some snapA,
      meta = \<lparr>Up = 1, DurationSeconds = 1, Timestamp = 1000, CacheHit = False\<rparr>,
      cachedAt = 1500\<rparr>"

text \<open>
  A licensing API with one virtual group, one server and one service instance. The pool
  of the server has two features of allotment 50, the first with 80 in use; the one active
  lease has the id L1 and the count 3, and its client names no server.
\<close>

definition featA :: licenseServerFeature where
  "featA = \<lparr>lsf_ID = ''f-a'', lsf_FeatureName = ''vGPU'', lsf_ProductName = ''vWS'',
            lsf_LicenseType = ''CONCURRENT'', lsf_TotalQuantity = 100\<rparr>"

definition srv1 :: licenseServer where
  "srv1 = \<lparr>ls_ID = ''srv-1'', ls_Name = ''S'', ls_Status = ''ENABLED'', ls_VirtualGroupID = 0,
           ls_VirtualGroupName = '''', ls_DeployedOn = ''CLOUD'', ls_LeasingMode = ''STANDARD'',
           ls_ServiceInstanceID = ''si-1'', ls_LicenseServerFeatures = [featA]\<rparr>"

definition groupG :: virtualGroup where
  "groupG = \<lparr>vg_ID = 1, vg_Name = ''G'', vg_Entitlements = []\<rparr>"

definition poolP :: licensePool where
  "poolP = \<lparr>lp_ID = ''p-1'', lp_Name = ''P'',
            lp_LicensePoolFeatures =
              [\<lparr>lpf_LicenseServerFeatureID = ''f-a'', lpf_TotalAllotment = 50, lpf_InUse = 80\<rparr>,
               \<lparr>lpf_LicenseServerFeatureID = ''f-b'', lpf_TotalAllotment = 50, lpf_InUse = 0\<rparr>]\<rparr>"

definition leaseL1 :: activeLease where
  "leaseL1 = \<lparr>al_LeaseID = ''L1'', al_FeatureName = '''', al_LeaseCount = 3,
              al_LicenseAllotmentFeatureID = ''f-a''\<rparr>"

definition oneServerUpstream :: Upstream where
  "oneServerUpstream =
     \<lparr>listVirtualGroups = Inr [groupG],
      listLicenseServers = (\<lambda>g. if g = 1 then Inr [srv1] else Inl (UpstreamError ''404'')),
      listLicensePools = (\<lambda>g s. if g = 1 \<and> s = ''srv-1'' then Inr [poolP]
                                  else Inl (UpstreamError ''404'')),
      listActiveLeases = (\<lambda>g i. if g = 1 \<and> i = ''si-1''
                                  then Inr [\<lparr>alc_Leases = [leaseL1],
                                            alc_AdditionalProperties =
                                              \<lparr>ap_LicenseServerID = '''',
                                               ap_LicenseServerName = ''''\<rparr>\<rparr>]
                                  else Inl (UpstreamError ''404''))\<rparr>"

text \<open>The snapshot that \<^verbatim>\<open>FetchSnapshot\<close> builds from it at time 7.\<close>

definition oneServerSnapshot :: Snapshot where
  "oneServerSnapshot =
     \<lparr>CollectedAt = 7, EntitlementFeatures = [],
      ServerFeatureCapacity =
        [\<lparr>sfc_VirtualGroupID = 1, sfc_VirtualGroupName = ''G'',
          sfc_ServerID = ''srv-1'', sfc_ServerName = ''S'',
          sfc_ServerStatus = ''ENABLED'', sfc_DeployedOn = ''CLOUD'',
          sfc_LeasingMode = ''STANDARD'', sfc_FeatureName = ''vGPU'',
          sfc_ProductName = ''vWS'', sfc_LicenseType = ''CONCURRENT'',
          sfc_TotalQuantity = 100\<rparr>],
      ServerUsage =
        [\<lparr>su_VirtualGroupID = 1, su_VirtualGroupName = ''G'',
          su_ServerID = ''srv-1'', su_ServerName = ''S'',
          su_ServerStatus = ''ENABLED'', su_DeployedOn = ''CLOUD'',
          su_LeasingMode = ''STANDARD'', su_Allocated = 100,
          su_InUse = 3, su_Available = 97\<rparr>],
      ServerActiveLeases =
        [\<lparr>sal_VirtualGroupID = 1, sal_VirtualGroupName = ''G'',
          sal_ServerID = ''srv-1'', sal_ServerName = ''S'',
          sal_ActiveLeases = 3\<rparr>],
      ServerFeatureActiveLeases =
        [\<lparr>sfal_VirtualGroupID = 1, sfal_VirtualGroupName = ''G'',
          sfal_ServerID = ''srv-1'', sfal_ServerName = ''S'',
          sfal_FeatureName = ''vGPU'', sfal_ProductName = ''vWS'',
          sfal_LicenseType = ''CONCURRENT'', sfal_ActiveLeases = 3\<rparr>],
      ActiveLeaseTotal = 3,
      PoolUsage =
        [\<lparr>pu_VirtualGroupID = 1, pu_VirtualGroupName = ''G'',
          pu_ServerID = ''srv-1'', pu_ServerName = ''S'',
          pu_PoolID = ''p-1'', pu_PoolName = ''P'',
          pu_FeatureName = ''vGPU'', pu_ProductName = ''vWS'',
          pu_LicenseType = ''CONCURRENT'', pu_Allocated = 50,
          pu_InUse = 80, pu_Available = 0\<rparr>,
         \<lparr>pu_VirtualGroupID = 1, pu_VirtualGroupName = ''G'',
          pu_ServerID = ''srv-1'', pu_ServerName = ''S'',
          pu_PoolID = ''p-1'', pu_PoolName = ''P'', pu_FeatureName = '''',
          pu_ProductName = '''', pu_LicenseType = '''', pu_Allocated = 50,
          pu_InUse = 0, pu_Available = 50\<rparr>]\<rparr>"

text \<open>The same API with every request for license pools failing.\<close>

definition poolsDownUpstream :: Upstream where
  "poolsDownUpstream =
     oneServerUpstream\<lparr>listLicensePools := (\<lambda>g s. Inl (UpstreamError ''503''))\<rparr>"

text \<open>
  A licensing API with one virtual group and two servers, each with a service instance of
  its own. The first instance reports a client of the first server with the leases L1
  (count 3), one without id (count 2) and L2 (count 0). The second instance reports a
  client of the first server with L1 again (its id padded with blanks) and a lease
  without id (count 2), a client of a server that is not in the list (L3, count 5), and a
  client that names no server (L4, count 7). No server has a license pool.
\<close>

definition srv2 :: licenseServer where
  "srv2 = \<lparr>ls_ID = ''srv-2'', ls_Name = ''T'', ls_Status = ''ENABLED'', ls_VirtualGroupID = 0,
           ls_VirtualGroupName = '''', ls_DeployedOn = ''CLOUD'', ls_LeasingMode = ''STANDARD'',
           ls_ServiceInstanceID = ''si-2'', ls_LicenseServerFeatures = []\<rparr>"

definition lease :: "string \<Rightarrow> real \<Rightarrow> activeLease" where
  "lease i n = \<lparr>al_LeaseID = i, al_FeatureName = '''', al_LeaseCount = n,
                al_LicenseAllotmentFeatureID = ''f-a''\<rparr>"

definition clientOf :: "string \<Rightarrow> activeLease list \<Rightarrow> activeLeaseClient" where
  "clientOf s ls =
     \<lparr>alc_Leases = ls,
      alc_AdditionalProperties = \<lparr>ap_LicenseServerID = s, ap_LicenseServerName = ''''\<rparr>\<rparr>"

definition twoInstanceUpstream :: Upstream where
  "twoInstanceUpstream =
     \<lparr>listVirtualGroups = Inr [groupG],
      listLicenseServers = (\<lambda>g. if g = 1 then Inr [srv1, srv2] else Inl (UpstreamError ''404'')),
      listLicensePools = (\<lambda>g s. Inr []),
      listActiveLeases =
        (\<lambda>g i. if g = 1 \<and> i = ''si-1''
                 then Inr [clientOf ''srv-1'' [lease ''L1'' 3, lease '''' 2, lease ''L2'' 0]]
               else if g = 1 \<and> i = ''si-2''
                 then Inr [clientOf ''srv-1'' [lease '' L1  '' 3, lease '''' 2],
                           clientOf ''ghost'' [lease ''L3'' 5],
                           clientOf '''' [lease ''L4'' 7]]
               else Inl (UpstreamError ''404''))\<rparr>"

text \<open>The servers of the group after phase 2.\<close>

definition twoInstanceServers :: "(int \<times> licenseServer list) list" where
  "twoInstanceServers = [(1, [backfill groupG srv1, backfill groupG srv2])]"

section \<open>The cache service: Refresh, Get, Latest\<close>

text \<open>
  C1. When the fetch of a \<^verbatim>\<open>Refresh\<close> fails and a snapshot was committed before, the call
  returns that snapshot and no error, with a Meta of \<open>Up = 0\<close>, the measured duration of
  the failed attempt, the collection time of the stale snapshot and \<open>CacheHit = False\<close>,
  and this Meta is committed (nothing else of the service changes). When no snapshot was
  committed, the call commits a Meta of \<open>Up = 0\<close> with the current time and returns the
  fetch error. So the failure reaches the caller as an error exactly when no snapshot was
  committed before.
\<close>

theorem Refresh_fetch_failure:
  assumes "fetched (results f (calls f)) = Inl fetchErr"
  shows "Refresh s f =
           (case snapshot s of
              Some stale \<Rightarrow>
                ((Some stale,
                  \<lparr>Up = 0, DurationSeconds = duration (results f (calls f)),
                   Timestamp = CollectedAt stale, CacheHit = False\<rparr>,
                  None),
                 s\<lparr>meta := \<lparr>Up = 0, DurationSeconds = duration (results f (calls f)),
                              Timestamp = CollectedAt stale, CacheHit = False\<rparr>\<rparr>,
                 f\<lparr>calls := Suc (calls f)\<rparr>)
            | None \<Rightarrow>
                ((None, Meta_zero, Some fetchErr),
                 s\<lparr>meta := \<lparr>Up = 0, DurationSeconds = duration (results f (calls f)),
                              Timestamp = now (results f (calls f)), CacheHit = False\<rparr>\<rparr>,
                 f\<lparr>calls := Suc (calls f)\<rparr>)) \<and>
         (snd (snd (fst (Refresh s f))) \<noteq> None \<longleftrightarrow> snapshot s = None)"
  using assms by (cases "snapshot s") (simp_all add: Refresh_def Let_def)

theorem Refresh_fetch_failure_witness:
  "fetched (results failingFetcher (calls failingFetcher)) = Inl (UpstreamError ''boom'') \<and>
   Refresh warmService failingFetcher =
     ((Some snapA, \<lparr>Up = 0, DurationSeconds = 2, Timestamp = 1000, CacheHit = False\<rparr>, None),
      warmService\<lparr>meta := \<lparr>Up = 0, DurationSeconds = 2, Timestamp = 1000, CacheHit = False\<rparr>\<rparr>,
      failingFetcher\<lparr>calls := 1\<rparr>) \<and>
   Refresh (NewService 0) failingFetcher =
     ((None, Meta_zero, Some (UpstreamError ''boom'')),
      (NewService 0)\<lparr>meta := \<lparr>Up = 0, DurationSeconds = 2, Timestamp = 5000, CacheHit = False\<rparr>\<rparr>,
      failingFetcher\<lparr>calls := 1\<rparr>)"
proof -
  have h: "fetched (results failingFetcher (calls failingFetcher)) = Inl (UpstreamError ''boom'')"
    by (simp add: failingFetcher_def)
  from Refresh_fetch_failure [OF h, of warmService] Refresh_fetch_failure [OF h, of "NewService 0"] h
  show ?thesis
    by (simp add: warmService_def snapA_def NewService_def failingFetcher_def)
qed

text \<open>
  C3. A \<^verbatim>\<open>Get\<close> made while a snapshot is cached and the time since it was cached is
  strictly below the TTL returns that snapshot and the committed Meta with
  \<open>CacheHit = True\<close> and \<open>DurationSeconds = 0\<close>, and leaves the service and the fetcher
  as they were (no call of the fetcher). Every other \<^verbatim>\<open>Get\<close> (nothing cached, or the
  time since caching at or beyond the TTL) is the \<^verbatim>\<open>Refresh\<close>.
\<close>

theorem Get_cache_hit_or_refresh:
  "(snapshot s = Some cached \<and> t - cachedAt s < cacheTTL s \<longrightarrow>
      Get s t f = ((Some cached, (meta s)\<lparr>CacheHit := True, DurationSeconds := 0\<rparr>, None), s, f) \<and>
      CacheHit (fst (snd (fst (Get s t f)))) \<and>
      DurationSeconds (fst (snd (fst (Get s t f)))) = 0 \<and>
      calls (snd (snd (Get s t f))) = calls f) \<and>
   (snapshot s = None \<or> cacheTTL s \<le> t - cachedAt s \<longrightarrow> Get s t f = Refresh s f)"
  by (auto simp: Get_def)

theorem Get_cache_hit_or_refresh_witness:
  "(snapshot warmService = Some snapA \<and> 1559 - cachedAt warmService < cacheTTL warmService) \<and>
   Get warmService 1559 failingFetcher =
     ((Some snapA, \<lparr>Up = 1, DurationSeconds = 0, Timestamp = 1000, CacheHit = True\<rparr>, None),
      warmService, failingFetcher) \<and>
   cacheTTL warmService \<le> 1560 - cachedAt warmService \<and>
   Get warmService 1560 failingFetcher = Refresh warmService failingFetcher \<and>
   snapshot (NewService 0) = None \<and>
   Get (NewService 0) 0 failingFetcher = Refresh (NewService 0) failingFetcher"
  using Get_cache_hit_or_refresh [of warmService snapA 1559 failingFetcher]
    Get_cache_hit_or_refresh [of warmService snapA 1560 failingFetcher]
    Get_cache_hit_or_refresh [of "NewService 0" snapA 0 failingFetcher]
  by (simp add: warmService_def NewService_def)



section \<open>Auxiliary facts\<close>

subsection \<open>The strings of the examples\<close>

lemma TrimSpace_examples:
  "TrimSpace '''' = ''''" "TrimSpace ''si-1'' = ''si-1''" "TrimSpace ''si-2'' = ''si-2''"
  "TrimSpace ''L1'' = ''L1''" "TrimSpace ''L2'' = ''L2''" "TrimSpace ''S'' = ''S''" "TrimSpace ''G'' = ''G''"
  "TrimSpace ''srv-1'' = ''srv-1''" "TrimSpace ''srv-2'' = ''srv-2''"
  "TrimSpace ''ghost'' = ''ghost''"
  "TrimSpace ''vGPU'' = ''vGPU''" "TrimSpace ''vWS'' = ''vWS''"
  "TrimSpace ''CONCURRENT'' = ''CONCURRENT''" "TrimSpace ''unknown'' = ''unknown''"
  "TrimSpace '' L1  '' = ''L1''"
  by (simp_all add: TrimSpace_def spaceRunes_def)

lemmas example_defs =
  featA_def srv1_def groupG_def poolP_def leaseL1_def oneServerUpstream_def

lemmas client_defs =
  FetchSnapshot_def fetchServers_def serverTask_def backfill_def
  fetchActiveLeaseUsage_def leaseTasks_def leaseQueries_def serviceInstanceIDs_def leaseTask_def
  clientLeases_def resolveServerID_def serverByID_def featureByAllotmentID_def attributeLease_def
  lookupOr_def Let_def countLease_def leaseTotals_empty_def addTo_def poolQueries_def poolTask_def
  poolLoop_def poolFeatureStep_def poolUsageRow_def serverUsageRow_def maxFloat64_def
  featureByID_def serverSnapshots_def featureSnapshots_def serverFeatureCapacity_def
  licenseServerFeature_zero_def licenseServer_zero_def extractEntitlementFeatureMetrics_def

lemma FetchSnapshot_oneServerUpstream:
  "FetchSnapshot oneServerUpstream 7 = Inr oneServerSnapshot"
  by (simp add: client_defs example_defs TrimSpace_examples oneServerSnapshot_def)

lemma FetchSnapshot_poolsDownUpstream:
  "FetchSnapshot poolsDownUpstream 7 = Inl (ListLicensePoolsError ''srv-1'' 1 (UpstreamError ''503''))"
  by (simp add: client_defs example_defs TrimSpace_examples poolsDownUpstream_def)

subsection \<open>Waiting for the tasks of a fan-out\<close>

lemma Wait_map_Inr: "Wait (map Inr xs) = Inr xs"
  by (induction xs) simp_all

lemma Wait_InrD: "Wait rs = Inr xs \<Longrightarrow> rs = map Inr xs"
proof (induction rs arbitrary: xs)
  case Nil
  then show ?case by simp
next
  case (Cons r rs)
  from Cons.prems obtain x where r: "r = Inr x"
    by (cases r) simp_all
  with Cons.prems obtain ys where ys: "Wait rs = Inr ys"
    by (cases "Wait rs") simp_all
  with r Cons.prems have "xs = x # ys" by simp
  with r Cons.IH [OF ys] show ?case by simp
qed

lemma Wait_Inr_iff: "Wait rs = Inr xs \<longleftrightarrow> rs = map Inr xs"
  using Wait_InrD Wait_map_Inr by blast

lemma Wait_isl: "isl (Wait rs) \<longleftrightarrow> (\<exists>r \<in> set rs. isl r)"
proof (induction rs)
  case Nil
  then show ?case by simp
next
  case (Cons r rs)
  show ?case
  proof (cases r)
    case (Inl e)
    then show ?thesis by simp
  next
    case (Inr x)
    with Cons.IH show ?thesis by (cases "Wait rs") simp_all
  qed
qed

subsection \<open>The tasks of phase 4\<close>

lemma fold_poolFeatureStep:
  "fold (poolFeatureStep server pool) fs (a, u, rows) =
     (a + (\<Sum>f\<leftarrow>fs. lpf_TotalAllotment f), u + (\<Sum>f\<leftarrow>fs. lpf_InUse f),
      rows @ map (poolUsageRow server pool) fs)"
  by (induction fs arbitrary: a u rows) (simp_all add: poolFeatureStep_def algebra_simps)

lemma fold_pools:
  "fold (\<lambda>pool acc. fold (poolFeatureStep server pool) (lp_LicensePoolFeatures pool) acc)
     pools (a, u, rows) =
     (a + (\<Sum>f\<leftarrow>concat (map lp_LicensePoolFeatures pools). lpf_TotalAllotment f),
      u + (\<Sum>f\<leftarrow>concat (map lp_LicensePoolFeatures pools). lpf_InUse f),
      rows @ concat (map (\<lambda>pool. map (poolUsageRow server pool) (lp_LicensePoolFeatures pool))
                       pools))"
  by (induction pools arbitrary: a u rows) (simp_all add: fold_poolFeatureStep algebra_simps)

lemma poolLoop_eq:
  "poolLoop server pools =
     ((\<Sum>f\<leftarrow>concat (map lp_LicensePoolFeatures pools). lpf_TotalAllotment f),
      (\<Sum>f\<leftarrow>concat (map lp_LicensePoolFeatures pools). lpf_InUse f),
      concat (map (\<lambda>pool. map (poolUsageRow server pool) (lp_LicensePoolFeatures pool)) pools))"
  by (simp add: poolLoop_def fold_pools)

lemma poolUsageRow_clamped:
  "pu_Available (poolUsageRow server pool feature) =
     max 0 (pu_Allocated (poolUsageRow server pool feature)
            - pu_InUse (poolUsageRow server pool feature))"
  by (simp add: poolUsageRow_def Let_def)

lemma serverUsageRow_clamped:
  "su_Available (serverUsageRow act server a u) =
     max 0 (su_Allocated (serverUsageRow act server a u) - su_InUse (serverUsageRow act server a u))"
  by (simp add: serverUsageRow_def Let_def maxFloat64_def split: option.splits)

lemma poolTask_Inr:
  "poolTask up act vg server = Inr part \<longleftrightarrow>
     (\<exists>pools. listLicensePools up (vg_ID vg) (ls_ID server) = Inr pools \<and>
        part = (concat (map (\<lambda>pool. map (poolUsageRow server pool) (lp_LicensePoolFeatures pool))
                         pools),
                serverUsageRow act server
                  (\<Sum>f\<leftarrow>concat (map lp_LicensePoolFeatures pools). lpf_TotalAllotment f)
                  (\<Sum>f\<leftarrow>concat (map lp_LicensePoolFeatures pools). lpf_InUse f),
                serverFeatureCapacity server))"
  by (cases "listLicensePools up (vg_ID vg) (ls_ID server)")
     (auto simp: poolTask_def poolLoop_eq)

lemma FetchSnapshot_Inr:
  assumes "FetchSnapshot up t = Inr snap"
  obtains vgs sbv act srows frows tot parts where
    "listVirtualGroups up = Inr vgs"
    "fetchServers up vgs = Inr sbv"
    "fetchActiveLeaseUsage up sbv = Inr (act, srows, frows, tot)"
    "map (\<lambda>(vg, server). poolTask up act vg server) (poolQueries vgs sbv) = map Inr parts"
    "snap = \<lparr>CollectedAt = t,
             EntitlementFeatures = extractEntitlementFeatureMetrics vgs,
             ServerFeatureCapacity = concat (map (\<lambda>(p, u, c). c) parts),
             ServerUsage = map (\<lambda>(p, u, c). u) parts,
             ServerActiveLeases = srows,
             ServerFeatureActiveLeases = frows,
             ActiveLeaseTotal = tot,
             PoolUsage = concat (map (\<lambda>(p, u, c). p) parts)\<rparr>"
proof -
  from assms obtain vgs where 1: "listVirtualGroups up = Inr vgs"
    by (cases "listVirtualGroups up") (simp_all add: FetchSnapshot_def)
  from assms 1 obtain sbv where 2: "fetchServers up vgs = Inr sbv"
    by (cases "fetchServers up vgs") (simp_all add: FetchSnapshot_def)
  from assms 1 2 obtain act srows frows tot where
    3: "fetchActiveLeaseUsage up sbv = Inr (act, srows, frows, tot)"
    by (cases "fetchActiveLeaseUsage up sbv") (auto simp add: FetchSnapshot_def)
  from assms 1 2 3 obtain parts where
    4: "Wait (map (\<lambda>(vg, server). poolTask up act vg server) (poolQueries vgs sbv)) = Inr parts"
    by (cases "Wait (map (\<lambda>(vg, server). poolTask up act vg server) (poolQueries vgs sbv))")
       (simp_all add: FetchSnapshot_def)
  from assms 1 2 3 4 have 5: "snap = \<lparr>CollectedAt = t,
             EntitlementFeatures = extractEntitlementFeatureMetrics vgs,
             ServerFeatureCapacity = concat (map (\<lambda>(p, u, c). c) parts),
             ServerUsage = map (\<lambda>(p, u, c). u) parts,
             ServerActiveLeases = srows,
             ServerFeatureActiveLeases = frows,
             ActiveLeaseTotal = tot,
             PoolUsage = concat (map (\<lambda>(p, u, c). p) parts)\<rparr>"
    by (simp add: FetchSnapshot_def)
  from 4 have "map (\<lambda>(vg, server). poolTask up act vg server) (poolQueries vgs sbv) = map Inr parts"
    by (simp add: Wait_Inr_iff)
  with 1 2 3 show thesis using 5 by (rule that)
qed


lemma poolTasks_parts:
  assumes "map (\<lambda>(vg, server). poolTask up act vg server) qs = map Inr parts"
  shows "list_all2 (\<lambda>(vg, server) part. poolTask up act vg server = Inr part) qs parts"
proof -
  from assms have "list_all2 (=) (map (\<lambda>(vg, server). poolTask up act vg server) qs) (map Inr parts)"
    by (simp add: list.rel_eq)
  then show ?thesis
    by (simp add: list.rel_map case_prod_unfold)
qed

section \<open>The client: the rows of phase 4\<close>

text \<open>
  C6. In every snapshot that \<^verbatim>\<open>FetchSnapshot\<close> returns, every pool usage row and every
  server usage row has \<open>Available = max 0 (Allocated - InUse)\<close>, so no \<open>Available\<close> is
  negative. (The witness has the pool feature with allotment 50 and 80 in use: its
  \<open>Available\<close> is 0.)
\<close>

theorem FetchSnapshot_available_clamped:
  assumes "FetchSnapshot up t = Inr snap"
  shows "(\<forall>r \<in> set (PoolUsage snap). pu_Available r = max 0 (pu_Allocated r - pu_InUse r)) \<and>
         (\<forall>r \<in> set (ServerUsage snap). su_Available r = max 0 (su_Allocated r - su_InUse r))"
proof -
  from assms obtain vgs sbv act srows frows tot parts where
    tasks: "map (\<lambda>(vg, server). poolTask up act vg server) (poolQueries vgs sbv) = map Inr parts"
    and pool: "PoolUsage snap = concat (map (\<lambda>(p, u, c). p) parts)"
    and usage: "ServerUsage snap = map (\<lambda>(p, u, c). u) parts"
    by (rule FetchSnapshot_Inr) simp
  have part: "\<exists>vg server. poolTask up act vg server = Inr part" if "part \<in> set parts" for part
  proof -
    from that have "Inr part \<in> set (map (\<lambda>(vg, server). poolTask up act vg server)
                                      (poolQueries vgs sbv))"
      by (simp add: tasks)
    then obtain vg server where "poolTask up act vg server = Inr part"
      by (auto simp: image_iff)
    then show ?thesis by blast
  qed
  have "pu_Available r = max 0 (pu_Allocated r - pu_InUse r)" if "r \<in> set (PoolUsage snap)" for r
  proof -
    from that pool obtain p u c where in_parts: "(p, u, c) \<in> set parts" and r: "r \<in> set p"
      by auto
    from part [OF in_parts] obtain vg server where "poolTask up act vg server = Inr (p, u, c)"
      by blast
    with r obtain pool feature where "r = poolUsageRow server pool feature"
      by (auto simp: poolTask_Inr)
    then show ?thesis by (simp add: poolUsageRow_clamped)
  qed
  moreover
  have "su_Available r = max 0 (su_Allocated r - su_InUse r)" if "r \<in> set (ServerUsage snap)" for r
  proof -
    from that usage obtain p c where in_parts: "(p, r, c) \<in> set parts"
      by auto
    from part [OF in_parts] obtain vg server where "poolTask up act vg server = Inr (p, r, c)"
      by blast
    then obtain a u where "r = serverUsageRow act server a u"
      by (auto simp: poolTask_Inr)
    then show ?thesis by (simp add: serverUsageRow_clamped)
  qed
  ultimately show ?thesis by blast
qed

theorem FetchSnapshot_available_clamped_witness:
  "FetchSnapshot oneServerUpstream 7 = Inr oneServerSnapshot \<and>
   map (\<lambda>r. (pu_Allocated r, pu_InUse r, pu_Available r)) (PoolUsage oneServerSnapshot) =
     [(50, 80, 0), (50, 0, 50)] \<and>
   map (\<lambda>r. (su_Allocated r, su_InUse r, su_Available r)) (ServerUsage oneServerSnapshot) =
     [(100, 3, 97)] \<and>
   list_all (\<lambda>r. pu_Available r = max 0 (pu_Allocated r - pu_InUse r))
     (PoolUsage oneServerSnapshot) \<and>
   list_all (\<lambda>r. su_Available r = max 0 (su_Allocated r - su_InUse r))
     (ServerUsage oneServerSnapshot)"
  using FetchSnapshot_available_clamped [OF FetchSnapshot_oneServerUpstream]
    FetchSnapshot_oneServerUpstream
  by (simp add: oneServerSnapshot_def list_all_iff)

text \<open>
  C5. In a snapshot that \<^verbatim>\<open>FetchSnapshot\<close> returns, the server usage rows are, in order,
  the rows of the requests of phase 4 (a virtual group and one of its servers), and the
  row of a server has the sum of the allotments of its pools as \<open>Allocated\<close>. When
  phase 3 produced an active-lease total for the id of the server, \<open>InUse\<close> is that
  total and \<open>Available\<close> is \<open>max 0 (Allocated - total)\<close>; when it produced none,
  \<open>InUse\<close> is the sum of the in-use figures of the pools and \<open>Available\<close> is
  \<open>max 0 (Allocated - InUse)\<close>. (The witness has one server with allotments of 100 and
  one lease of count 3: in use 3, available 97.)
\<close>

theorem FetchSnapshot_active_leases_override:
  assumes "FetchSnapshot up t = Inr snap"
  shows "\<exists>vgs sbv act srows frows tot.
           listVirtualGroups up = Inr vgs \<and> fetchServers up vgs = Inr sbv \<and>
           fetchActiveLeaseUsage up sbv = Inr (act, srows, frows, tot) \<and>
           list_all2
             (\<lambda>(vg, server) row.
                \<exists>pools. listLicensePools up (vg_ID vg) (ls_ID server) = Inr pools \<and>
                  su_ServerID row = ls_ID server \<and>
                  su_Allocated row =
                    (\<Sum>f\<leftarrow>concat (map lp_LicensePoolFeatures pools). lpf_TotalAllotment f) \<and>
                  (case map_of act (ls_ID server) of
                     Some activeLeaseCount \<Rightarrow>
                       su_InUse row = activeLeaseCount \<and>
                       su_Available row = max 0 (su_Allocated row - activeLeaseCount)
                   | None \<Rightarrow>
                       su_InUse row =
                         (\<Sum>f\<leftarrow>concat (map lp_LicensePoolFeatures pools). lpf_InUse f) \<and>
                       su_Available row = max 0 (su_Allocated row - su_InUse row)))
             (poolQueries vgs sbv) (ServerUsage snap)"
proof -
  from assms obtain vgs sbv act srows frows tot parts where
    1: "listVirtualGroups up = Inr vgs" "fetchServers up vgs = Inr sbv"
       "fetchActiveLeaseUsage up sbv = Inr (act, srows, frows, tot)"
    and tasks: "map (\<lambda>(vg, server). poolTask up act vg server) (poolQueries vgs sbv) = map Inr parts"
    and usage: "ServerUsage snap = map (\<lambda>(p, u, c). u) parts"
    by (rule FetchSnapshot_Inr) simp
  let ?P = "\<lambda>(vg, server) row.
                \<exists>pools. listLicensePools up (vg_ID vg) (ls_ID server) = Inr pools \<and>
                  su_ServerID row = ls_ID server \<and>
                  su_Allocated row =
                    (\<Sum>f\<leftarrow>concat (map lp_LicensePoolFeatures pools). lpf_TotalAllotment f) \<and>
                  (case map_of act (ls_ID server) of
                     Some activeLeaseCount \<Rightarrow>
                       su_InUse row = activeLeaseCount \<and>
                       su_Available row = max 0 (su_Allocated row - activeLeaseCount)
                   | None \<Rightarrow>
                       su_InUse row =
                         (\<Sum>f\<leftarrow>concat (map lp_LicensePoolFeatures pools). lpf_InUse f) \<and>
                       su_Available row = max 0 (su_Allocated row - su_InUse row))"
  have step: "?P q (case part of (p, u, c) \<Rightarrow> u)"
    if "(case q of (vg, server) \<Rightarrow> \<lambda>part. poolTask up act vg server = Inr part) part"
    for q part
  proof -
    obtain vg server where q: "q = (vg, server)" by (cases q)
    obtain p u c where part: "part = (p, u, c)" by (cases part)
    from that q part obtain pools where
      pools: "listLicensePools up (vg_ID vg) (ls_ID server) = Inr pools"
      and u: "u = serverUsageRow act server
                  (\<Sum>f\<leftarrow>concat (map lp_LicensePoolFeatures pools). lpf_TotalAllotment f)
                  (\<Sum>f\<leftarrow>concat (map lp_LicensePoolFeatures pools). lpf_InUse f)"
      by (auto simp: poolTask_Inr)
    from u have "su_ServerID u = ls_ID server"
      "su_Allocated u = (\<Sum>f\<leftarrow>concat (map lp_LicensePoolFeatures pools). lpf_TotalAllotment f)"
      "(case map_of act (ls_ID server) of
          Some activeLeaseCount \<Rightarrow>
            su_InUse u = activeLeaseCount \<and>
            su_Available u = max 0 (su_Allocated u - activeLeaseCount)
        | None \<Rightarrow>
            su_InUse u = (\<Sum>f\<leftarrow>concat (map lp_LicensePoolFeatures pools). lpf_InUse f) \<and>
            su_Available u = max 0 (su_Allocated u - su_InUse u))"
      by (simp_all add: serverUsageRow_def Let_def maxFloat64_def split: option.splits)
    with pools show ?thesis unfolding q part by simp
  qed
  from poolTasks_parts [OF tasks]
  have "list_all2 (\<lambda>q part. ?P q (case part of (p, u, c) \<Rightarrow> u)) (poolQueries vgs sbv) parts"
    by (rule list_all2_mono) (rule step)
  then have "list_all2 ?P (poolQueries vgs sbv) (ServerUsage snap)"
    by (simp add: usage list_all2_map2)
  with 1 show ?thesis by blast
qed


theorem FetchSnapshot_active_leases_override_witness:
  "FetchSnapshot oneServerUpstream 7 = Inr oneServerSnapshot \<and>
   map (\<lambda>r. (su_ServerID r, su_Allocated r, su_InUse r, su_Available r))
     (ServerUsage oneServerSnapshot) = [(''srv-1'', 100, 3, 97)] \<and>
   (\<exists>vgs sbv act srows frows tot.
      listVirtualGroups oneServerUpstream = Inr vgs \<and>
      fetchServers oneServerUpstream vgs = Inr sbv \<and>
      fetchActiveLeaseUsage oneServerUpstream sbv = Inr (act, srows, frows, tot) \<and>
      map_of act ''srv-1'' = Some 3)"
proof -
  have "fetchServers oneServerUpstream [groupG] = Inr [(1, [backfill groupG srv1])]"
    by (simp add: fetchServers_def serverTask_def example_defs)
  moreover have "\<exists>srows frows.
      fetchActiveLeaseUsage oneServerUpstream [(1, [backfill groupG srv1])] =
        Inr ([(''srv-1'', 3)], srows, frows, 3)"
    by (simp add: client_defs example_defs TrimSpace_examples)
  moreover have "listVirtualGroups oneServerUpstream = Inr [groupG]"
    by (simp add: oneServerUpstream_def)
  moreover have "map_of [(''srv-1'', 3 :: real)] ''srv-1'' = Some 3"
    by simp
  ultimately have "\<exists>vgs sbv act srows frows tot.
      listVirtualGroups oneServerUpstream = Inr vgs \<and>
      fetchServers oneServerUpstream vgs = Inr sbv \<and>
      fetchActiveLeaseUsage oneServerUpstream sbv = Inr (act, srows, frows, tot) \<and>
      map_of act ''srv-1'' = Some 3"
    by blast
  with FetchSnapshot_active_leases_override [OF FetchSnapshot_oneServerUpstream]
    FetchSnapshot_oneServerUpstream
  show ?thesis by (simp add: oneServerSnapshot_def)
qed

section \<open>The client: failure of a request\<close>

lemma fetchServers_isl:
  "isl (fetchServers up vgs) \<longleftrightarrow> (\<exists>vg \<in> set vgs. isl (listLicenseServers up (vg_ID vg)))"
proof -
  have "isl (fetchServers up vgs) \<longleftrightarrow> isl (Wait (map (serverTask up) vgs))"
    by (cases "Wait (map (serverTask up) vgs)") (simp_all add: fetchServers_def)
  also have "\<dots> \<longleftrightarrow> (\<exists>vg \<in> set vgs. isl (serverTask up vg))"
    by (simp add: Wait_isl)
  also have "\<dots> \<longleftrightarrow> (\<exists>vg \<in> set vgs. isl (listLicenseServers up (vg_ID vg)))"
  proof -
    have "isl (serverTask up vg) \<longleftrightarrow> isl (listLicenseServers up (vg_ID vg))" for vg
      by (cases "listLicenseServers up (vg_ID vg)") (simp_all add: serverTask_def)
    then show ?thesis by simp
  qed
  finally show ?thesis .
qed

lemma fetchActiveLeaseUsage_isl:
  "isl (fetchActiveLeaseUsage up sbv) \<longleftrightarrow>
     (\<exists>(g, servers, i) \<in> set (leaseQueries sbv). isl (listActiveLeases up g i))"
proof -
  have "isl (fetchActiveLeaseUsage up sbv) \<longleftrightarrow> isl (Wait (leaseTasks up sbv))"
    by (cases "Wait (leaseTasks up sbv)") (simp_all add: fetchActiveLeaseUsage_def Let_def)
  also have "\<dots> \<longleftrightarrow> (\<exists>q \<in> set (leaseQueries sbv).
      isl (case q of (g, servers, i) \<Rightarrow> leaseTask up g servers i))"
    by (simp add: Wait_isl leaseTasks_def)
  also have "\<dots> \<longleftrightarrow> (\<exists>(g, servers, i) \<in> set (leaseQueries sbv). isl (listActiveLeases up g i))"
  proof -
    have "isl (leaseTask up g servers i) \<longleftrightarrow> isl (listActiveLeases up g i)" for g servers i
      by (cases "listActiveLeases up g i") (simp_all add: leaseTask_def)
    then show ?thesis by (simp add: case_prod_unfold)
  qed
  finally show ?thesis .
qed

lemma poolTasks_isl:
  "isl (Wait (map (\<lambda>(vg, server). poolTask up act vg server) qs)) \<longleftrightarrow>
     (\<exists>(vg, server) \<in> set qs. isl (listLicensePools up (vg_ID vg) (ls_ID server)))"
proof -
  have "isl (poolTask up act vg server) \<longleftrightarrow> isl (listLicensePools up (vg_ID vg) (ls_ID server))"
    for vg server
    by (cases "listLicensePools up (vg_ID vg) (ls_ID server)")
       (simp_all add: poolTask_def split: prod.splits)
  then show ?thesis by (simp add: Wait_isl case_prod_unfold)
qed

text \<open>
  C7. When a request of \<^verbatim>\<open>FetchSnapshot\<close> fails (the list of the virtual groups, the
  license servers of a group, the active leases of a group and a service instance of its
  servers, or the license pools of a group and a server), the call returns an error, and
  so no snapshot: the result is an error or a snapshot, never both nor a part of one. The
  call has no state of its own to change: its result is a function of the answers of the
  API and of the clock.
\<close>

theorem FetchSnapshot_fails_fast:
  assumes "case listVirtualGroups up of
             Inl err \<Rightarrow> True
           | Inr virtualGroups \<Rightarrow>
               (\<exists>vg \<in> set virtualGroups. isl (listLicenseServers up (vg_ID vg))) \<or>
               (case fetchServers up virtualGroups of
                  Inl err \<Rightarrow> False
                | Inr serversByVG \<Rightarrow>
                    (\<exists>(g, servers, i) \<in> set (leaseQueries serversByVG).
                        isl (listActiveLeases up g i)) \<or>
                    (\<exists>(vg, server) \<in> set (poolQueries virtualGroups serversByVG).
                        isl (listLicensePools up (vg_ID vg) (ls_ID server))))"
  shows "\<exists>err. FetchSnapshot up t = Inl err"
proof (cases "listVirtualGroups up")
  case (Inl err)
  then show ?thesis by (simp add: FetchSnapshot_def)
next
  case vgs: (Inr virtualGroups)
  show ?thesis
  proof (cases "fetchServers up virtualGroups")
    case (Inl err)
    with vgs show ?thesis by (simp add: FetchSnapshot_def)
  next
    case sbv: (Inr serversByVG)
    then have "\<not> isl (fetchServers up virtualGroups)" by simp
    then have no2: "\<not> (\<exists>vg \<in> set virtualGroups. isl (listLicenseServers up (vg_ID vg)))"
      by (simp only: fetchServers_isl not_False_eq_True)
    show ?thesis
    proof (cases "fetchActiveLeaseUsage up serversByVG")
      case (Inl err)
      with vgs sbv show ?thesis by (simp add: FetchSnapshot_def)
    next
      case act: (Inr r)
      obtain activeByServer srows frows tot where r: "r = (activeByServer, srows, frows, tot)"
        by (cases r)
      from act have "\<not> isl (fetchActiveLeaseUsage up serversByVG)" by simp
      then have no3: "\<not> (\<exists>(g, servers, i) \<in> set (leaseQueries serversByVG).
                              isl (listActiveLeases up g i))"
        by (simp only: fetchActiveLeaseUsage_isl not_False_eq_True)
      from assms vgs sbv no2 no3
      have "\<exists>(vg, server) \<in> set (poolQueries virtualGroups serversByVG).
               isl (listLicensePools up (vg_ID vg) (ls_ID server))"
        by simp
      then have "isl (Wait (map (\<lambda>(vg, server). poolTask up activeByServer vg server)
                             (poolQueries virtualGroups serversByVG)))"
        by (simp only: poolTasks_isl)
      then obtain err where
        "Wait (map (\<lambda>(vg, server). poolTask up activeByServer vg server)
                 (poolQueries virtualGroups serversByVG)) = Inl err"
        by (auto simp: isl_def)
      with vgs sbv act r show ?thesis by (simp add: FetchSnapshot_def)
    qed
  qed
qed

theorem FetchSnapshot_fails_fast_witness:
  "listVirtualGroups poolsDownUpstream = Inr [groupG] \<and>
   fetchServers poolsDownUpstream [groupG] = Inr [(1, [backfill groupG srv1])] \<and>
   poolQueries [groupG] [(1, [backfill groupG srv1])] = [(groupG, backfill groupG srv1)] \<and>
   isl (listLicensePools poolsDownUpstream (vg_ID groupG) (ls_ID (backfill groupG srv1))) \<and>
   FetchSnapshot poolsDownUpstream 7 =
     Inl (ListLicensePoolsError ''srv-1'' 1 (UpstreamError ''503''))"
proof -
  have 1: "listVirtualGroups poolsDownUpstream = Inr [groupG]"
    by (simp add: poolsDownUpstream_def oneServerUpstream_def)
  have 2: "fetchServers poolsDownUpstream [groupG] = Inr [(1, [backfill groupG srv1])]"
    by (simp add: fetchServers_def serverTask_def poolsDownUpstream_def example_defs)
  have 3: "poolQueries [groupG] [(1, [backfill groupG srv1])] = [(groupG, backfill groupG srv1)]"
    by (simp add: poolQueries_def lookupOr_def groupG_def)
  have 4: "isl (listLicensePools poolsDownUpstream (vg_ID groupG) (ls_ID (backfill groupG srv1)))"
    by (simp add: poolsDownUpstream_def)
  have "\<exists>err. FetchSnapshot poolsDownUpstream 7 = Inl err"
    by (rule FetchSnapshot_fails_fast) (simp add: 1 2 3 4)
  with 1 2 3 4 FetchSnapshot_poolsDownUpstream show ?thesis by simp
qed

section \<open>The client: the active leases of phase 3\<close>

subsection \<open>The critical section over a sequence of leases\<close>















subsection \<open>The example with two service instances\<close>

lemmas example2_defs =
  featA_def srv1_def srv2_def groupG_def lease_def clientOf_def twoInstanceUpstream_def
  twoInstanceServers_def


lemma fetchServers_twoInstanceUpstream:
  "fetchServers twoInstanceUpstream [groupG] = Inr twoInstanceServers"
  by (simp add: fetchServers_def serverTask_def example2_defs)




subsection \<open>The server of a client\<close>













end
